theory Spec2Isabelle
  imports Complex_Main "HOL-Library.Word"
begin

section \<open>Geofenced capture form: the model of \<open>src/pages/index.tsx\<close>\<close>

text \<open>
  The page is a React component \<open>Form\<close> with a child \<open>CameraCapture\<close> and a pure
  function \<open>haversine\<close>. The component state is a record, every event handler and every
  browser callback is a function from state to state, and the calls into the platform
  (position requests, canvas drawing) are recorded as values.

  Numbers. The distance has two models. \<open>haversine\<close> is the function read in exact
  arithmetic, over \<open>real\<close>: the positions the page receives are finite (the Geolocation
  interface types them as \<open>double\<close>, which excludes NaN and the infinities), and
  \<open>haversine\<close> differs from what the engine computes by rounding only, except where the
  engine's result is NaN. \<open>haversine64\<close> is the same function as the engine evaluates
  it, in binary64 arithmetic with NaN, over a mathematical library that is a parameter. The
  statements about the geofence comparison and about the distance of a point to itself
  are made on \<open>haversine\<close>; where the engine returns NaN the two models differ in kind,
  and what fails for that reason is settled on \<open>haversine64\<close>.
\<close>

subsection \<open>The great-circle distance\<close>

text \<open>\<open>const toRad = (x: number) => (x * Math.PI) / 180;\<close>\<close>

definition toRad :: "real \<Rightarrow> real" where
  "toRad x = (x * pi) / 180"

text \<open>\<open>const R = 6371e3; // meters\<close>\<close>

definition R :: real where
  "R = 6371000"

text \<open>
  \<open>Math.atan2(y, x)\<close> is a builtin of the language, not code of the page: the angle of
  the point \<open>(x, y)\<close> in \<open>(-\<pi>, \<pi>]\<close>, case by case as ECMAScript lists it (signed
  zeros apart, which exact arithmetic does not have).
\<close>

definition atan2 :: "real \<Rightarrow> real \<Rightarrow> real" where
  "atan2 y x =
     (if 0 < x then arctan (y / x)
      else if x < 0 then (if 0 \<le> y then arctan (y / x) + pi else arctan (y / x) - pi)
      else if 0 < y then pi / 2
      else if y < 0 then - (pi / 2)
      else 0)"

text \<open>The function \<open>haversine\<close>, lines 6 to 19, statement by statement.\<close>

definition haversine :: "real \<Rightarrow> real \<Rightarrow> real \<Rightarrow> real \<Rightarrow> real" where
  "haversine lat1 lon1 lat2 lon2 =
     (let dLat = toRad (lat2 - lat1);
          dLon = toRad (lon2 - lon1);
          a = sin (dLat / 2) * sin (dLat / 2) +
              cos (toRad lat1) * cos (toRad lat2) * sin (dLon / 2) * sin (dLon / 2);
          c = 2 * atan2 (sqrt a) (sqrt (1 - a))
      in R * c)"

text \<open>
  The distance as the specification words it: both points are converted to radians, the
  differences are taken in radians, \<open>a\<close> is written with squares, and the result is
  \<open>2 \<cdot> R \<cdot> atan2 (\<surd>a, \<surd>(1 - a))\<close> with \<open>R\<close> = 6,371,000.
\<close>

definition haversine_spec :: "real \<Rightarrow> real \<Rightarrow> real \<Rightarrow> real \<Rightarrow> real" where
  "haversine_spec lat1 lon1 lat2 lon2 =
     (let rlat1 = lat1 * pi / 180; rlat2 = lat2 * pi / 180;
          rlon1 = lon1 * pi / 180; rlon2 = lon2 * pi / 180;
          deltaLat = rlat2 - rlat1; deltaLon = rlon2 - rlon1;
          a = (sin (deltaLat / 2))\<^sup>2 + cos rlat1 * cos rlat2 * (sin (deltaLon / 2))\<^sup>2
      in 2 * 6371000 * atan2 (sqrt a) (sqrt (1 - a)))"

subsection \<open>The distance in binary64\<close>

text \<open>
  A value of type \<open>number\<close> as the function meets it: a finite double, as the real it
  denotes, or NaN. The infinities and the sign of zero are left out: the function would
  need an input beyond \<open>10\<^sup>3\<^sup>0\<^sup>0\<close> to produce one.
\<close>

datatype number = Num real | NaN

text \<open>
  Rounding to binary64: to the nearest number with a significand of 53 bits, a tie to
  the even one. \<open>binade x\<close> is the exponent \<open>e\<close> with \<open>2\<^sup>e \<le> |x| < 2\<^sup>e\<^sup>+\<^sup>1\<close>. Overflow
  and the subnormal range are left out.
\<close>

definition pow2 :: "int \<Rightarrow> real" where
  "pow2 e = (if 0 \<le> e then 2 ^ nat e else 1 / 2 ^ nat (- e))"

definition binade :: "real \<Rightarrow> int" where
  "binade x = \<lfloor>log 2 \<bar>x\<bar>\<rfloor>"

definition ties_even :: "real \<Rightarrow> int" where
  "ties_even y =
     (let f = \<lfloor>y\<rfloor>
      in if y - of_int f < 1 / 2 then f
         else if 1 / 2 < y - of_int f then f + 1
         else if even f then f else f + 1)"

definition round64 :: "real \<Rightarrow> real" where
  "round64 x =
     (if x = 0 then 0
      else of_int (ties_even (x / pow2 (binade x - 52))) * pow2 (binade x - 52))"

text \<open>
  The four operations of the language: NaN if an operand is NaN, else the exact result
  rounded. The function divides by the literals 180 and 2 only.
\<close>

fun arith :: "(real \<Rightarrow> real \<Rightarrow> real) \<Rightarrow> number \<Rightarrow> number \<Rightarrow> number" where
  "arith f (Num x) (Num y) = Num (round64 (f x y))"
| "arith f _ _ = NaN"

definition add64 :: "number \<Rightarrow> number \<Rightarrow> number" where
  "add64 = arith (+)"

definition sub64 :: "number \<Rightarrow> number \<Rightarrow> number" where
  "sub64 = arith (-)"

definition mul64 :: "number \<Rightarrow> number \<Rightarrow> number" where
  "mul64 = arith (*)"

definition div64 :: "number \<Rightarrow> number \<Rightarrow> number" where
  "div64 = arith (/)"

text \<open>
  \<open>Math.PI\<close>, the double nearest to \<open>\<pi>\<close>.
\<close>

definition Math_PI :: real where
  "Math_PI = 884279719003555 / 281474976710656"

text \<open>
  \<open>Math.sin\<close>, \<open>Math.cos\<close> and \<open>Math.atan2\<close> are approximations that ECMAScript leaves
  to the engine: their values on finite doubles are a parameter. NaN goes to NaN.
  \<open>Math.sqrt\<close> of a negative number is NaN; otherwise it is the rounded square root.
\<close>

record math_library =
  sin_impl :: "real \<Rightarrow> real"
  cos_impl :: "real \<Rightarrow> real"
  atan2_impl :: "real \<Rightarrow> real \<Rightarrow> real"

fun Math_sin :: "math_library \<Rightarrow> number \<Rightarrow> number" where
  "Math_sin lib (Num x) = Num (sin_impl lib x)"
| "Math_sin lib NaN = NaN"

fun Math_cos :: "math_library \<Rightarrow> number \<Rightarrow> number" where
  "Math_cos lib (Num x) = Num (cos_impl lib x)"
| "Math_cos lib NaN = NaN"

fun Math_sqrt :: "number \<Rightarrow> number" where
  "Math_sqrt (Num x) = (if x < 0 then NaN else Num (round64 (sqrt x)))"
| "Math_sqrt NaN = NaN"

fun Math_atan2 :: "math_library \<Rightarrow> number \<Rightarrow> number \<Rightarrow> number" where
  "Math_atan2 lib (Num y) (Num x) = Num (atan2_impl lib y x)"
| "Math_atan2 lib _ _ = NaN"

text \<open>
  \<open>x == y\<close> on two numbers, which is \<open>x === y\<close>: NaN equals nothing, itself
  included.
\<close>

fun strictEquals :: "number \<Rightarrow> number \<Rightarrow> bool" where
  "strictEquals (Num x) (Num y) = (x = y)"
| "strictEquals _ _ = False"

text \<open>
  \<open>toRad\<close> and \<open>haversine\<close>, lines 6 to 19, operation by operation in the order
  the language evaluates them.
\<close>

definition toRad64 :: "number \<Rightarrow> number" where
  "toRad64 x = div64 (mul64 x (Num Math_PI)) (Num 180)"

definition haversine64 ::
    "math_library \<Rightarrow> number \<Rightarrow> number \<Rightarrow> number \<Rightarrow> number \<Rightarrow> number" where
  "haversine64 lib lat1 lon1 lat2 lon2 =
     (let dLat = toRad64 (sub64 lat2 lat1);
          dLon = toRad64 (sub64 lon2 lon1);
          a = add64
                (mul64 (Math_sin lib (div64 dLat (Num 2))) (Math_sin lib (div64 dLat (Num 2))))
                (mul64
                   (mul64
                      (mul64 (Math_cos lib (toRad64 lat1)) (Math_cos lib (toRad64 lat2)))
                      (Math_sin lib (div64 dLon (Num 2))))
                   (Math_sin lib (div64 dLon (Num 2))));
          c = mul64 (Num 2) (Math_atan2 lib (Math_sqrt a) (Math_sqrt (sub64 (Num 1) a)))
      in mul64 (Num R) c)"

text \<open>
  A mathematical library for the example below. At the arguments the example reaches
  its results are written out: they are the doubles nearest to the exact values, as
  the libraries in common use return them. Elsewhere it rounds the exact value.
\<close>

definition libm0 :: math_library where
  "libm0 =
     \<lparr>sin_impl = (\<lambda>x.
        if x = - (5030569068109113 / 36028797018963968)
        then - (5014239404989977 / 36028797018963968)
        else if x = 884279719003555 / 562949953421312 then 1
        else round64 (sin x)),
      cos_impl = (\<lambda>x.
        if x = 5030569068109113 / 36028797018963968 \<or>
           x = - (5030569068109113 / 36028797018963968)
        then 4459770905381437 / 4503599627370496
        else round64 (cos x)),
      atan2_impl = (\<lambda>y x. round64 (atan2 y x))\<rparr>"

subsection \<open>Strings\<close>

text \<open>
  A JavaScript string is a sequence of UTF-16 code units. \<open>js\<close> embeds a literal of the
  source (all of them are ASCII).
\<close>

type_synonym jsstring = "16 word list"

definition js :: "string \<Rightarrow> jsstring" where
  "js s = map of_char s"

text \<open>
  \<open>String.prototype.trim\<close> is a builtin: it removes, at both ends, the code units that
  ECMAScript calls WhiteSpace or LineTerminator.
\<close>

definition isWhiteSpace :: "16 word \<Rightarrow> bool" where
  "isWhiteSpace c =
     (c = 0x0009 \<or> c = 0x000A \<or> c = 0x000B \<or> c = 0x000C \<or> c = 0x000D \<or> c = 0x0020 \<or>
      c = 0x00A0 \<or> c = 0x1680 \<or> (0x2000 \<le> c \<and> c \<le> 0x200A) \<or> c = 0x2028 \<or>
      c = 0x2029 \<or> c = 0x202F \<or> c = 0x205F \<or> c = 0x3000 \<or> c = 0xFEFF)"

definition trim :: "jsstring \<Rightarrow> jsstring" where
  "trim s = rev (dropWhile isWhiteSpace (rev (dropWhile isWhiteSpace s)))"

text \<open>\<open>s.startsWith(p)\<close>, also a builtin.\<close>

definition startsWith :: "jsstring \<Rightarrow> jsstring \<Rightarrow> bool" where
  "startsWith s p = (take (length p) s = p)"

text \<open>
  \<open>Math.round\<close> rounds to the nearest integer, a tie towards \<open>+\<infinity>\<close>; a template
  literal prints an integer below \<open>10\<^sup>2\<^sup>1\<close> in absolute value in decimal digits.
\<close>

definition Math_round :: "real \<Rightarrow> int" where
  "Math_round x = \<lfloor>x + 1 / 2\<rfloor>"

fun digits :: "nat \<Rightarrow> jsstring" where
  "digits n =
     (if n < 10 then [of_nat (48 + n)]
      else digits (n div 10) @ [of_nat (48 + n mod 10)])"

declare digits.simps [simp del]

definition numberToString :: "int \<Rightarrow> jsstring" where
  "numberToString i = (if i < 0 then js ''-'' @ digits (nat (- i)) else digits (nat i))"

subsection \<open>The state of \<open>Form\<close>\<close>

record coord =
  lat :: real
  lon :: real

text \<open>\<open>useState({ name: '', email: '', comments: '' })\<close>\<close>

record field_values =
  name :: jsstring
  email :: jsstring
  comments :: jsstring

text \<open>
  The seven \<open>useState\<close> cells of \<open>Form\<close>, lines 107 to 113 (\<open>form_fields\<close> is the
  cell \<open>fields\<close>). \<open>positionRequests\<close> is
  not a cell of the component: it counts the calls of
  \<open>navigator.geolocation.getCurrentPosition\<close> the component has made, so that issuing
  a request is visible in the model.
\<close>

record form_state =
  form_fields :: field_values
  images :: "jsstring list"
  location :: "coord option"
  geoAllowed :: bool
  geoError :: jsstring
  submitting :: bool
  geoLoading :: bool
  positionRequests :: nat

definition initial :: form_state where
  "initial =
     \<lparr>form_fields = \<lparr>name = [], email = [], comments = []\<rparr>,
      images = [], location = None, geoAllowed = False, geoError = [],
      submitting = False, geoLoading = False, positionRequests = 0\<rparr>"

text \<open>\<open>const GEOFENCE_RADIUS_METERS = 150; // 100-200m\<close>\<close>

definition GEOFENCE_RADIUS_METERS :: real where
  "GEOFENCE_RADIUS_METERS = 150"

subsection \<open>Location: \<open>getLocation\<close> and its two callbacks\<close>

text \<open>
  \<open>getLocation\<close>, lines 115 to 134, up to the call of \<open>getCurrentPosition\<close>: the loading
  flag is set, the error text is cleared and one request is issued. Nothing guards it.
\<close>

definition getLocation :: "form_state \<Rightarrow> form_state" where
  "getLocation st =
     st\<lparr>geoLoading := True, geoError := [],
        positionRequests := Suc (positionRequests st)\<rparr>"

text \<open>
  The success callback, lines 119 to 127. \<open>GEOFENCE_CENTER\<close> is imported from
  \<open>../geofenceConfig\<close>, which is not part of the sources at hand: the centre is a
  parameter of the model. The distance is the exact one; where the engine computes NaN
  the comparison is false all the same, and the message reads \<open>NaNm\<close> in place of the
  digits.
\<close>

definition outOfRangeMessage :: "real \<Rightarrow> jsstring" where
  "outOfRangeMessage distance =
     js ''You are '' @ numberToString (Math_round distance) @ js ''m from the allowed location.''"

definition onPosition :: "coord \<Rightarrow> coord \<Rightarrow> form_state \<Rightarrow> form_state" where
  "onPosition GEOFENCE_CENTER pos st =
     (let distance = haversine (lat pos) (lon pos) (lat GEOFENCE_CENTER) (lon GEOFENCE_CENTER)
      in st\<lparr>location := Some \<lparr>lat = lat pos, lon = lon pos\<rparr>,
            geoAllowed := (distance \<le> GEOFENCE_RADIUS_METERS),
            geoError := (if distance \<le> GEOFENCE_RADIUS_METERS then [] else outOfRangeMessage distance),
            geoLoading := False\<rparr>)"

text \<open>
  The error callback, lines 128 to 132. Its argument, the reason of the failure, is not
  read.
\<close>

datatype position_error = PERMISSION_DENIED | POSITION_UNAVAILABLE | TIMEOUT

definition permissionMessage :: jsstring where
  "permissionMessage =
     js ''Geolocation permission denied or unavailable. Please enable location and try again.''"

definition onPositionError :: "position_error \<Rightarrow> form_state \<Rightarrow> form_state" where
  "onPositionError err st =
     st\<lparr>geoError := permissionMessage, geoAllowed := False, geoLoading := False\<rparr>"

subsection \<open>Fields, images and the submit button\<close>

text \<open>
  \<open>handleFieldChange\<close>, line 142: \<open>setFields({ ...fields, [e.target.name]: e.target.value })\<close>.
  A key other than the three of the record adds a property that nothing reads.
\<close>

definition handleFieldChange :: "jsstring \<Rightarrow> jsstring \<Rightarrow> form_state \<Rightarrow> form_state" where
  "handleFieldChange key v st =
     (if key = js ''name'' then st\<lparr>form_fields := (form_fields st)\<lparr>name := v\<rparr>\<rparr>
      else if key = js ''email'' then st\<lparr>form_fields := (form_fields st)\<lparr>email := v\<rparr>\<rparr>
      else if key = js ''comments'' then st\<lparr>form_fields := (form_fields st)\<lparr>comments := v\<rparr>\<rparr>
      else st)"

text \<open>The handler of the textarea, line 258.\<close>

definition handleCommentsChange :: "jsstring \<Rightarrow> form_state \<Rightarrow> form_state" where
  "handleCommentsChange v st = st\<lparr>form_fields := (form_fields st)\<lparr>comments := v\<rparr>\<rparr>"

text \<open>
  \<open>handleCapture\<close> of \<open>Form\<close>, lines 145 to 149. A string is truthy when it is not
  empty.
\<close>

definition handleCapture :: "jsstring \<Rightarrow> form_state \<Rightarrow> form_state" where
  "handleCapture img st =
     (if img \<noteq> [] \<and> startsWith img (js ''data:image'')
      then st\<lparr>images := images st @ [img]\<rparr>
      else st)"

text \<open>\<open>isFormValid\<close>, lines 162 to 166.\<close>

definition isFormValid :: "form_state \<Rightarrow> bool" where
  "isFormValid st =
     (trim (name (form_fields st)) \<noteq> [] \<and>
      trim (email (form_fields st)) \<noteq> [] \<and>
      trim (comments (form_fields st)) \<noteq> [] \<and>
      length (images st) > 0)"

text \<open>The \<open>disabled\<close> attribute of the submit button, line 303.\<close>

definition submitDisabled :: "form_state \<Rightarrow> bool" where
  "submitDisabled st = (\<not> geoAllowed st \<or> submitting st \<or> \<not> isFormValid st)"

text \<open>
  The status line under the images, line 286:
  \<open>{geoLoading ? 'Getting location...' : geoError || 'Location OK'}\<close>.
\<close>

definition statusText :: "form_state \<Rightarrow> jsstring" where
  "statusText st =
     (if geoLoading st then js ''Getting location...''
      else if geoError st \<noteq> [] then geoError st
      else js ''Location OK'')"

text \<open>
  \<open>handleSubmit\<close>, lines 151 to 160, up to the timer; and the timer's callback, which
  reloads the page: the component is mounted afresh, and its mount effect (lines 136
  to 139) calls \<open>getLocation\<close>.
\<close>

definition handleSubmit :: "form_state \<Rightarrow> form_state" where
  "handleSubmit st = st\<lparr>submitting := True\<rparr>"

definition mounted :: form_state where
  "mounted = getLocation initial"

subsection \<open>\<open>CameraCapture\<close>\<close>

text \<open>
  What \<open>handleCapture\<close> of \<open>CameraCapture\<close> draws on its canvas, one constructor per
  call of the 2D context.
\<close>

datatype canvas_op =
    DrawImage int int
  | SetFont jsstring
  | SetFillStyle jsstring
  | FillRect int int int int
  | FillText jsstring int int

text \<open>
  What the handler reads from the platform: the video element behind \<open>videoRef\<close> (absent
  until the camera view is rendered) with its frame size, whether the canvas yields a 2D
  context, the clock's \<open>toLocaleString\<close>, \<open>toFixed(5)\<close> and the JPEG encoder
  \<open>toDataURL\<close>, which sees the size of the canvas and what was drawn.
\<close>

record video =
  videoWidth :: int
  videoHeight :: int

record camera_env =
  videoRef_current :: "video option"
  context2d :: bool
  timestamp :: jsstring
  toFixed5 :: "real \<Rightarrow> jsstring"
  toDataURL :: "int \<Rightarrow> int \<Rightarrow> canvas_op list \<Rightarrow> jsstring"

text \<open>
  \<open>handleCapture\<close> of \<open>CameraCapture\<close>, lines 57 to 78: the drawing it performs and the
  string it passes to \<open>onCapture\<close>, if any. The stub \<open>processImageForAI\<close>, which
  writes the same string to the console, has no counterpart here.
\<close>

definition camera_handleCapture ::
    "camera_env \<Rightarrow> coord option \<Rightarrow> canvas_op list \<times> jsstring option" where
  "camera_handleCapture env loc =
     (case (videoRef_current env, loc) of
        (Some v, Some l) \<Rightarrow>
          (let width = videoWidth v; height = videoHeight v
           in if \<not> context2d env then ([], None)
              else
                (let ops =
                   [DrawImage 0 0,
                    SetFont (js ''24px Arial''),
                    SetFillStyle (js ''rgba(0,0,0,0.5)''),
                    FillRect 0 (height - 70) width 70,
                    SetFillStyle (js ''white''),
                    FillText (js ''Time: '' @ timestamp env) 10 (height - 45),
                    FillText (js ''Lat: '' @ toFixed5 env (lat l)) 10 (height - 20),
                    FillText (js ''Lon: '' @ toFixed5 env (lon l)) 220 (height - 20)]
                 in (ops, Some (toDataURL env width height ops))))
      | _ \<Rightarrow> ([], None))"

text \<open>The \<open>disabled\<close> attribute of the capture button, line 98.\<close>

definition captureDisabled :: "coord option \<Rightarrow> bool" where
  "captureDisabled loc = (loc = None)"

text \<open>
  The two components wired as line 278 wires them:
  \<open><CameraCapture onCapture={handleCapture} location={location} />\<close>.
\<close>

definition capturePhoto :: "camera_env \<Rightarrow> form_state \<Rightarrow> canvas_op list \<times> form_state" where
  "capturePhoto env st =
     (case camera_handleCapture env (location st) of
        (ops, None) \<Rightarrow> (ops, st)
      | (ops, Some dataUrl) \<Rightarrow> (ops, handleCapture dataUrl st))"

subsection \<open>Events\<close>

text \<open>
  The page runs one handler or callback at a time. An event is a user action or a
  callback of the platform; \<open>step\<close> runs its handler, \<open>run\<close> a sequence of them.
\<close>

datatype event =
    FieldChange jsstring jsstring
  | CommentsChange jsstring
  | Capture camera_env
  | RetryLocation
  | PositionSuccess coord
  | PositionFailure position_error
  | Submit
  | SubmitTimeout

fun step :: "coord \<Rightarrow> form_state \<Rightarrow> event \<Rightarrow> form_state" where
  "step c st (FieldChange key v) = handleFieldChange key v st"
| "step c st (CommentsChange v) = handleCommentsChange v st"
| "step c st (Capture env) = snd (capturePhoto env st)"
| "step c st RetryLocation = getLocation st"
| "step c st (PositionSuccess pos) = onPosition c pos st"
| "step c st (PositionFailure err) = onPositionError err st"
| "step c st Submit = (if submitDisabled st then st else handleSubmit st)"
| "step c st SubmitTimeout = (if submitting st then mounted else st)"

definition run :: "coord \<Rightarrow> event list \<Rightarrow> form_state \<Rightarrow> form_state" where
  "run c es st = foldl (step c) st es"

text \<open>
  The outcome of a location request, and the state its callback derives from it.
\<close>

datatype position_result = Position coord | PositionFailed position_error

definition complete :: "coord \<Rightarrow> position_result \<Rightarrow> form_state \<Rightarrow> form_state" where
  "complete c r st =
     (case r of Position pos \<Rightarrow> onPosition c pos st
      | PositionFailed err \<Rightarrow> onPositionError err st)"

text \<open>
  A trace of the location service. \<open>Request\<close> is a call of \<open>getLocation\<close> (the mount
  effect or the retry button); \<open>Answer k r\<close> is the arrival of the answer \<open>r\<close> to the
  \<open>k\<close>-th request of the trace. A request may be issued before an earlier one is
  answered, and answers may arrive in any order. The page keeps no request identifier:
  the callback that runs does not depend on \<open>k\<close>.
\<close>

datatype geo_event = Request | Answer nat position_result

fun toEvent :: "geo_event \<Rightarrow> event" where
  "toEvent Request = RetryLocation"
| "toEvent (Answer k (Position pos)) = PositionSuccess pos"
| "toEvent (Answer k (PositionFailed err)) = PositionFailure err"

definition geoRun :: "coord \<Rightarrow> geo_event list \<Rightarrow> form_state \<Rightarrow> form_state" where
  "geoRun c tr st = run c (map toEvent tr) st"

text \<open>
  The number of requests a trace issues, the answer to the \<open>k\<close>-th of them, the answer
  to the most recent one, and the position of the last successful answer to arrive.
\<close>

fun issued :: "geo_event list \<Rightarrow> nat" where
  "issued [] = 0"
| "issued (Request # tr) = Suc (issued tr)"
| "issued (Answer k r # tr) = issued tr"

fun answerTo :: "nat \<Rightarrow> geo_event list \<Rightarrow> position_result option" where
  "answerTo k [] = None"
| "answerTo k (Request # tr) = answerTo k tr"
| "answerTo k (Answer j r # tr) = (if j = k then Some r else answerTo k tr)"

definition latestRequestResult :: "geo_event list \<Rightarrow> position_result option" where
  "latestRequestResult tr = answerTo (issued tr) tr"

fun lastPositionOf :: "geo_event list \<Rightarrow> coord option" where
  "lastPositionOf [] = None"
| "lastPositionOf (Request # tr) = lastPositionOf tr"
| "lastPositionOf (Answer k (Position p) # tr) =
     (case lastPositionOf tr of None \<Rightarrow> Some p | Some q \<Rightarrow> Some q)"
| "lastPositionOf (Answer k (PositionFailed e) # tr) = lastPositionOf tr"

text \<open>A point \<open>d\<close> metres due north of \<open>c\<close>, for the fixtures of the boundary.\<close>

definition northOf :: "coord \<Rightarrow> real \<Rightarrow> coord" where
  "northOf c d = \<lparr>lat = lat c + (d / R) * 180 / pi, lon = lon c\<rparr>"


subsection \<open>Fixtures\<close>

text \<open>
  Concrete inputs for the examples below: a centre, a camera whose encoder returns a
  JPEG data URL, and a session in which the position is found at the centre, the three
  fields are filled in and one photo is taken.
\<close>

definition centre0 :: coord where
  "centre0 = \<lparr>lat = 0, lon = 0\<rparr>"

definition env0 :: camera_env where
  "env0 =
     \<lparr>videoRef_current = Some \<lparr>videoWidth = 640, videoHeight = 480\<rparr>,
      context2d = True,
      timestamp = js ''1/1/2025, 12:00:00 PM'',
      toFixed5 = (\<lambda>x. js ''0.00000''),
      toDataURL = (\<lambda>w h ops. js ''data:image/jpeg;base64,AAAA'')\<rparr>"

definition filled :: "event list" where
  "filled =
     [RetryLocation, PositionSuccess centre0,
      FieldChange (js ''name'') (js ''Ada''),
      FieldChange (js ''email'') (js ''ada@example.org''),
      CommentsChange (js ''hello''),
      Capture env0]"

definition filledState :: form_state where
  "filledState = run centre0 filled initial"

text \<open>The same session after the submit button is pressed.\<close>

definition submittedState :: form_state where
  "submittedState = run centre0 (filled @ [Submit]) initial"

text \<open>The same session after a retry of the location that fails.\<close>

definition failedState :: form_state where
  "failedState =
     run centre0 (filled @ [RetryLocation, PositionFailure PERMISSION_DENIED]) initial"

text \<open>
  Three traces of the location service: a request that fails; a request that succeeds
  at the centre, then one that fails; and two requests of which the second is answered
  first, with a position at the centre, and the first then fails.
\<close>

definition failureTrace :: "geo_event list" where
  "failureTrace = [Request, Answer 1 (PositionFailed PERMISSION_DENIED)]"

definition sequentialTrace :: "geo_event list" where
  "sequentialTrace =
     [Request, Answer 1 (Position centre0),
      Request, Answer 2 (PositionFailed PERMISSION_DENIED)]"

definition overlapTrace :: "geo_event list" where
  "overlapTrace =
     [Request, Request, Answer 2 (Position centre0), Answer 1 (PositionFailed TIMEOUT)]"

section \<open>Properties of the distance\<close>

lemma toRad_diff: "toRad (x - y) = toRad x - toRad y"
  by (simp add: toRad_def diff_divide_distrib left_diff_distrib)

lemma toRad_swap: "toRad (x - y) = - toRad (y - x)"
proof -
  have "x - y = - (y - x)" by simp
  then have "(x - y) * pi = - ((y - x) * pi)" by (simp only: mult_minus_left)
  then show ?thesis by (simp add: toRad_def)
qed

lemma sin_half_swap:
  "sin (toRad (x - y) / 2) * sin (toRad (x - y) / 2) =
   sin (toRad (y - x) / 2) * sin (toRad (y - x) / 2)"
proof -
  have "sin (toRad (x - y) / 2) = - sin (toRad (y - x) / 2)"
    by (simp add: toRad_swap [of x y])
  then show ?thesis by simp
qed

text \<open>
  In exact arithmetic the function and the formula of the specification agree on every
  input, and the distance is symmetric.
\<close>

lemma haversine_exact_formula:
  "haversine lat1 lon1 lat2 lon2 = haversine_spec lat1 lon1 lat2 lon2"
  unfolding haversine_def haversine_spec_def Let_def
  by (simp add: toRad_diff power2_eq_square R_def mult.assoc) (simp add: toRad_def)

lemma haversine_exact_symmetric:
  "haversine lat1 lon1 lat2 lon2 = haversine lat2 lon2 lat1 lon1"
  unfolding haversine_def Let_def
  by (simp only: sin_half_swap [of lat2 lat1] sin_half_swap [of lon2 lon1]
        mult.assoc mult.left_commute [of "cos (toRad lat1)"])

text \<open>
  Claim C8. For every coordinate \<open>A\<close>, the distance from \<open>A\<close> to itself is exactly 0.
\<close>

theorem haversine_self_zero:
  "haversine lat1 lon1 lat1 lon1 = 0"
  by (simp add: haversine_def toRad_def atan2_def)

subsection \<open>The range of the distance\<close>

text \<open>
  The quantity \<open>a\<close> lies in \<open>[0, 1]\<close> for all inputs, so both square roots of
  \<open>haversine\<close> are taken of non-negative numbers, and the distance lies between 0 and
  half the circumference.
\<close>

lemma scaled_cos_bounds:
  fixes s D :: real
  assumes "0 \<le> s" "- 1 \<le> D" "D \<le> 1"
  shows "- s \<le> s * D" "s * D \<le> s"
proof -
  have "s * (- 1) \<le> s * D" using assms by (intro mult_left_mono) simp_all
  then show "- s \<le> s * D" by simp
  have "s * D \<le> s * 1" using assms by (intro mult_left_mono) simp_all
  then show "s * D \<le> s" by simp
qed

lemma haversine_a_range:
  fixes p q l :: real
  defines "a \<equiv> sin ((q - p) / 2) * sin ((q - p) / 2) + cos p * cos q * sin (l / 2) * sin (l / 2)"
  shows "0 \<le> a \<and> a \<le> 1"
proof -
  define s where "s = sin (l / 2) * sin (l / 2)"
  define D where "D = cos (q - p)"
  define S where "S = cos (p + q)"
  have s0: "0 \<le> s" by (simp add: s_def)
  have s1: "s \<le> 1"
    using sin_cos_squared_add3 [of "l / 2"] zero_le_square [of "cos (l / 2)"]
    unfolding s_def by linarith
  have e: "2 * ((q - p) / 2) = q - p" by simp
  have "cos (2 * ((q - p) / 2)) = 1 - 2 * (sin ((q - p) / 2))\<^sup>2"
    by (rule cos_double_sin)
  then have "D = 1 - 2 * (sin ((q - p) / 2) * sin ((q - p) / 2))"
    unfolding e D_def power2_eq_square .
  then have h: "sin ((q - p) / 2) * sin ((q - p) / 2) = (1 - D) / 2"
    by simp
  have "cos p * cos q = (cos (p - q) + cos (p + q)) / 2"
    by (rule cos_times_cos)
  moreover have "cos (p - q) = cos (q - p)"
    using cos_minus [of "q - p"] by simp
  ultimately have cc: "cos p * cos q = (D + S) / 2"
    by (simp add: D_def S_def)
  have "a = (1 - D) / 2 + (cos p * cos q) * s"
    by (simp add: a_def h s_def mult.assoc)
  then have "a = (1 - D) / 2 + ((D + S) / 2) * s"
    by (simp only: cc)
  then have a2: "2 * a = 1 - (1 - s) * D + s * S"
    by (simp add: field_simps)
  have b1: "- (1 - s) \<le> (1 - s) * D" "(1 - s) * D \<le> 1 - s"
    using scaled_cos_bounds [of "1 - s" D] s1 by (simp_all add: D_def)
  have b2: "- s \<le> s * S" "s * S \<le> s"
    using scaled_cos_bounds [of s S] s0 by (simp_all add: S_def)
  show ?thesis using a2 b1 b2 by linarith
qed

lemma haversine_sqrt_defined:
  "0 \<le> sin (toRad (lat2 - lat1) / 2) * sin (toRad (lat2 - lat1) / 2) +
        cos (toRad lat1) * cos (toRad lat2) *
        sin (toRad (lon2 - lon1) / 2) * sin (toRad (lon2 - lon1) / 2)
   \<and> sin (toRad (lat2 - lat1) / 2) * sin (toRad (lat2 - lat1) / 2) +
        cos (toRad lat1) * cos (toRad lat2) *
        sin (toRad (lon2 - lon1) / 2) * sin (toRad (lon2 - lon1) / 2) \<le> 1"
  using haversine_a_range
    [where p = "toRad lat1" and q = "toRad lat2" and l = "toRad (lon2 - lon1)"]
  by (simp add: toRad_diff)

lemma haversine_range:
  "0 \<le> haversine lat1 lon1 lat2 lon2 \<and> haversine lat1 lon1 lat2 lon2 \<le> pi * R"
proof -
  define a where
    "a = sin (toRad (lat2 - lat1) / 2) * sin (toRad (lat2 - lat1) / 2) +
         cos (toRad lat1) * cos (toRad lat2) *
         sin (toRad (lon2 - lon1) / 2) * sin (toRad (lon2 - lon1) / 2)"
  have r: "0 \<le> a" "a \<le> 1"
    using haversine_sqrt_defined [of lat2 lat1 lon2 lon1] by (simp_all add: a_def)
  have h: "haversine lat1 lon1 lat2 lon2 = R * (2 * atan2 (sqrt a) (sqrt (1 - a)))"
    by (simp add: haversine_def Let_def a_def)
  have y: "0 \<le> sqrt a" and x: "0 \<le> sqrt (1 - a)" using r by simp_all
  have "0 \<le> atan2 (sqrt a) (sqrt (1 - a)) \<and> atan2 (sqrt a) (sqrt (1 - a)) \<le> pi / 2"
  proof (cases "0 < sqrt (1 - a)")
    case True
    then have "0 \<le> sqrt a / sqrt (1 - a)" using y by simp
    then have "0 \<le> arctan (sqrt a / sqrt (1 - a))" by (simp only: zero_le_arctan_iff)
    moreover have "arctan (sqrt a / sqrt (1 - a)) < pi / 2" by (rule arctan_ubound)
    ultimately show ?thesis using True by (simp add: atan2_def)
  next
    case False
    then have "sqrt (1 - a) = 0" using x by linarith
    then show ?thesis using y pi_ge_zero by (simp add: atan2_def)
  qed
  then show ?thesis unfolding h by (simp add: R_def mult.commute)
qed

lemma haversine_same: "haversine a b a b = 0"
  by (simp add: haversine_def toRad_def atan2_def)

subsection \<open>A point at a given distance\<close>

lemma toRad_northOf:
  "toRad (lat c - lat (northOf c d)) = - (d / R)"
  by (simp add: toRad_def northOf_def R_def)

lemma atan2_sin_cos:
  assumes "0 \<le> x" "x < pi / 2"
  shows "atan2 (sqrt (sin x * sin x)) (sqrt (1 - sin x * sin x)) = x"
proof -
  have c: "0 < cos x" using assms by (intro cos_gt_zero_pi) linarith+
  have s: "0 \<le> sin x" using assms pi_gt_zero by (intro sin_ge_zero) linarith+
  have "1 - sin x * sin x = cos x * cos x"
    using sin_cos_squared_add3 [of x] by linarith
  then have "sqrt (1 - sin x * sin x) = cos x" using c by simp
  moreover have "sqrt (sin x * sin x) = sin x" using s by simp
  moreover have "arctan (sin x / cos x) = x"
    using arctan_tan [of x] assms by (simp add: tan_def)
  ultimately show ?thesis using c by (simp add: atan2_def)
qed

lemma haversine_northOf:
  assumes "0 \<le> d" "d < pi * R"
  shows "haversine (lat (northOf c d)) (lon (northOf c d)) (lat c) (lon c) = d"
proof -
  define x where "x = d / (2 * R)"
  have Rpos: "0 < R" by (simp add: R_def)
  have x0: "0 \<le> x" using assms Rpos by (simp add: x_def)
  have x1: "x < pi / 2" using assms Rpos by (simp add: x_def field_simps)
  have dLat: "toRad (lat c - lat (northOf c d)) / 2 = - x"
    by (simp add: toRad_northOf x_def)
  have dLon: "toRad (lon c - lon (northOf c d)) = 0"
    by (simp add: toRad_def northOf_def)
  have "haversine (lat (northOf c d)) (lon (northOf c d)) (lat c) (lon c)
      = R * (2 * atan2 (sqrt (sin x * sin x)) (sqrt (1 - sin x * sin x)))"
    unfolding haversine_def Let_def dLat dLon by simp
  also have "\<dots> = R * (2 * x)" using atan2_sin_cos [OF x0 x1] by simp
  also have "\<dots> = d" using Rpos by (simp add: x_def)
  finally show ?thesis .
qed

lemma pi_R_bound: "150001 / 1000 < pi * R"
proof -
  have "(2::real) * 6371000 \<le> pi * R" using pi_ge_two by (simp add: R_def)
  then show ?thesis by simp
qed

text \<open>
  Claim C3. Membership has an inclusive boundary: the flag set by a position result is
  true exactly when the computed distance is at most 150 metres. A point at distance 0
  (the centre itself) is inside, a point at exactly 150 metres is inside, and a point at
  150.001 metres is outside.
\<close>

theorem geofence_boundary_inclusive:
  "geoAllowed (onPosition c p st) = (haversine (lat p) (lon p) (lat c) (lon c) \<le> 150)
   \<and> haversine (lat c) (lon c) (lat c) (lon c) = 0
   \<and> geoAllowed (onPosition c c st)
   \<and> haversine (lat (northOf c 150)) (lon (northOf c 150)) (lat c) (lon c) = 150
   \<and> geoAllowed (onPosition c (northOf c 150) st)
   \<and> haversine (lat (northOf c (150001 / 1000))) (lon (northOf c (150001 / 1000)))
        (lat c) (lon c) = 150001 / 1000
   \<and> \<not> geoAllowed (onPosition c (northOf c (150001 / 1000)) st)"
proof -
  have g: "\<And>p. geoAllowed (onPosition c p st) =
             (haversine (lat p) (lon p) (lat c) (lon c) \<le> 150)"
    by (simp add: onPosition_def Let_def GEOFENCE_RADIUS_METERS_def)
  have z: "haversine (lat c) (lon c) (lat c) (lon c) = 0"
    by (rule haversine_same)
  have a: "haversine (lat (northOf c 150)) (lon (northOf c 150)) (lat c) (lon c) = 150"
    using pi_R_bound by (intro haversine_northOf) simp_all
  have b: "haversine (lat (northOf c (150001 / 1000))) (lon (northOf c (150001 / 1000)))
             (lat c) (lon c) = 150001 / 1000"
    using pi_R_bound by (intro haversine_northOf) simp_all
  show ?thesis
    by (simp only: g z a b) simp
qed

subsection \<open>The distance in binary64 at antipodes\<close>

text \<open>
  Evaluating a rounding: once the binade of \<open>x\<close> is known, the rounded value is a matter
  of arithmetic on numerals.
\<close>

lemma pow2_powr: "pow2 e = 2 powr (of_int e)"
  by (simp add: pow2_def powr_real_of_int field_simps)

lemma binade_eq:
  assumes "pow2 e \<le> \<bar>x\<bar>" "\<bar>x\<bar> < pow2 (e + 1)"
  shows "binade x = e"
proof -
  have "0 < pow2 e" by (simp add: pow2_def)
  then have p: "0 < \<bar>x\<bar>" using assms(1) by linarith
  have "of_int e \<le> log 2 \<bar>x\<bar>"
    using assms(1) p by (simp add: pow2_powr le_log_iff)
  moreover have "log 2 \<bar>x\<bar> < of_int e + 1"
    using assms(2) p by (simp add: pow2_powr log_less_iff add.commute)
  ultimately show ?thesis unfolding binade_def by (simp add: floor_eq_iff)
qed

lemma round64_at:
  assumes "pow2 e \<le> \<bar>x\<bar>" "\<bar>x\<bar> < pow2 (e + 1)"
    and "of_int (ties_even (x / pow2 (e - 52))) * pow2 (e - 52) = y"
  shows "round64 x = y"
proof -
  have "0 < pow2 e" by (simp add: pow2_def)
  then have "x \<noteq> 0" using assms(1) by auto
  then show ?thesis using binade_eq [OF assms(1,2)] assms(3) by (simp add: round64_def)
qed

text \<open>
  The function at the antipodal points \<open>(8, 0)\<close> and \<open>(-8, 180)\<close>, operation by
  operation: \<open>dLat = toRad (-16)\<close>, \<open>dLon = toRad 180\<close>, their halves, \<open>toRad 8\<close> and
  \<open>toRad (-8)\<close>, then the products, the sum \<open>a\<close> and \<open>1 - a\<close>.
\<close>

lemma antipodes_op1: "sub64 (Num (- 8)) (Num 8) = Num (- 16)"
  unfolding sub64_def arith.simps number.inject
  by (rule round64_at [where e = "4"]) (simp_all add: pow2_def ties_even_def Let_def)

lemma antipodes_op2: "mul64 (Num (- 16)) (Num (884279719003555 / 281474976710656)) = Num (- (884279719003555 / 17592186044416))"
  unfolding mul64_def arith.simps number.inject
  by (rule round64_at [where e = "5"]) (simp_all add: pow2_def ties_even_def Let_def)

lemma antipodes_op3: "div64 (Num (- (884279719003555 / 17592186044416))) (Num 180) = Num (- (5030569068109113 / 18014398509481984))"
  unfolding div64_def arith.simps number.inject
  by (rule round64_at [where e = "-2"]) (simp_all add: pow2_def ties_even_def Let_def)

lemma antipodes_op4: "sub64 (Num 180) (Num 0) = Num 180"
  unfolding sub64_def arith.simps number.inject
  by (rule round64_at [where e = "7"]) (simp_all add: pow2_def ties_even_def Let_def)

lemma antipodes_op5: "mul64 (Num 180) (Num (884279719003555 / 281474976710656)) = Num (4974073419394997 / 8796093022208)"
  unfolding mul64_def arith.simps number.inject
  by (rule round64_at [where e = "9"]) (simp_all add: pow2_def ties_even_def Let_def)

lemma antipodes_op6: "div64 (Num (4974073419394997 / 8796093022208)) (Num 180) = Num (884279719003555 / 281474976710656)"
  unfolding div64_def arith.simps number.inject
  by (rule round64_at [where e = "1"]) (simp_all add: pow2_def ties_even_def Let_def)

lemma antipodes_op7: "div64 (Num (- (5030569068109113 / 18014398509481984))) (Num 2) = Num (- (5030569068109113 / 36028797018963968))"
  unfolding div64_def arith.simps number.inject
  by (rule round64_at [where e = "-3"]) (simp_all add: pow2_def ties_even_def Let_def)

lemma antipodes_op8: "div64 (Num (884279719003555 / 281474976710656)) (Num 2) = Num (884279719003555 / 562949953421312)"
  unfolding div64_def arith.simps number.inject
  by (rule round64_at [where e = "0"]) (simp_all add: pow2_def ties_even_def Let_def)

lemma antipodes_op9: "mul64 (Num 8) (Num (884279719003555 / 281474976710656)) = Num (884279719003555 / 35184372088832)"
  unfolding mul64_def arith.simps number.inject
  by (rule round64_at [where e = "4"]) (simp_all add: pow2_def ties_even_def Let_def)

lemma antipodes_op10: "div64 (Num (884279719003555 / 35184372088832)) (Num 180) = Num (5030569068109113 / 36028797018963968)"
  unfolding div64_def arith.simps number.inject
  by (rule round64_at [where e = "-3"]) (simp_all add: pow2_def ties_even_def Let_def)

lemma antipodes_op11: "mul64 (Num (- 8)) (Num (884279719003555 / 281474976710656)) = Num (- (884279719003555 / 35184372088832))"
  unfolding mul64_def arith.simps number.inject
  by (rule round64_at [where e = "4"]) (simp_all add: pow2_def ties_even_def Let_def)

lemma antipodes_op12: "div64 (Num (- (884279719003555 / 35184372088832))) (Num 180) = Num (- (5030569068109113 / 36028797018963968))"
  unfolding div64_def arith.simps number.inject
  by (rule round64_at [where e = "-3"]) (simp_all add: pow2_def ties_even_def Let_def)

lemma antipodes_op13: "mul64 (Num (- (5014239404989977 / 36028797018963968))) (Num (- (5014239404989977 / 36028797018963968))) = Num (1395694493897217 / 72057594037927936)"
  unfolding mul64_def arith.simps number.inject
  by (rule round64_at [where e = "-6"]) (simp_all add: pow2_def ties_even_def Let_def)

lemma antipodes_op14: "mul64 (Num (4459770905381437 / 4503599627370496)) (Num (4459770905381437 / 4503599627370496)) = Num (8832737443003841 / 9007199254740992)"
  unfolding mul64_def arith.simps number.inject
  by (rule round64_at [where e = "-1"]) (simp_all add: pow2_def ties_even_def Let_def)

lemma antipodes_op15: "mul64 (Num (8832737443003841 / 9007199254740992)) (Num 1) = Num (8832737443003841 / 9007199254740992)"
  unfolding mul64_def arith.simps number.inject
  by (rule round64_at [where e = "-1"]) (simp_all add: pow2_def ties_even_def Let_def)

lemma antipodes_op16: "add64 (Num (1395694493897217 / 72057594037927936)) (Num (8832737443003841 / 9007199254740992)) = Num (4503599627370497 / 4503599627370496)"
  unfolding add64_def arith.simps number.inject
  by (rule round64_at [where e = "0"]) (simp_all add: pow2_def ties_even_def Let_def)

lemma antipodes_op17: "sub64 (Num 1) (Num (4503599627370497 / 4503599627370496)) = Num (- (1 / 4503599627370496))"
  unfolding sub64_def arith.simps number.inject
  by (rule round64_at [where e = "-52"]) (simp_all add: pow2_def ties_even_def Let_def)

lemma libm0_values:
  "Math_sin libm0 (Num (- (5030569068109113 / 36028797018963968))) =
     Num (- (5014239404989977 / 36028797018963968))"
  "Math_sin libm0 (Num (884279719003555 / 562949953421312)) = Num 1"
  "Math_cos libm0 (Num (5030569068109113 / 36028797018963968)) =
     Num (4459770905381437 / 4503599627370496)"
  "Math_cos libm0 (Num (- (5030569068109113 / 36028797018963968))) =
     Num (4459770905381437 / 4503599627370496)"
  by (simp_all add: libm0_def)

text \<open>
  So \<open>a\<close> is \<open>1 + 2\<^sup>-\<^sup>5\<^sup>2\<close>, \<open>1 - a\<close> is negative, its square root is NaN, and NaN is
  what the function returns.
\<close>

lemma haversine64_antipodes:
  "haversine64 libm0 (Num 8) (Num 0) (Num (- 8)) (Num 180) = NaN"
  unfolding haversine64_def toRad64_def Let_def Math_PI_def
  apply (simp only: antipodes_op1 antipodes_op2 antipodes_op3 antipodes_op4 antipodes_op5 antipodes_op6 antipodes_op7 antipodes_op8 antipodes_op9 antipodes_op10 antipodes_op11 antipodes_op12 antipodes_op13 antipodes_op14 antipodes_op15 antipodes_op16 antipodes_op17 libm0_values)
  apply (simp add: mul64_def)
  done

text \<open>The formula of the specification at the same points: half the circumference.\<close>

lemma haversine_spec_antipodes: "haversine_spec 8 0 (- 8) 180 = pi * R"
proof -
  define x :: real where "x = 8 * pi / 180"
  have d: "((- 8) * pi / 180 - 8 * pi / 180) / 2 = - x" by (simp add: x_def)
  have l: "(180 * pi / 180 - 0 * pi / 180) / 2 = pi / 2" by simp
  have m: "(- 8) * pi / 180 = - x" by (simp add: x_def)
  have "(sin (- x))\<^sup>2 + cos x * cos (- x) * (sin (pi / 2))\<^sup>2 =
          sin x * sin x + cos x * cos x"
    by (simp add: power2_eq_square)
  also have "\<dots> = 1"
    using sin_cos_squared_add3 [of x] by linarith
  finally have "haversine_spec 8 0 (- 8) 180 = 2 * 6371000 * atan2 (sqrt 1) (sqrt (1 - 1))"
    unfolding haversine_spec_def Let_def d l m x_def [symmetric] by simp
  then show ?thesis by (simp add: atan2_def R_def)
qed

text \<open>
  Claim C2. For every pair of coordinates in degrees, the function returns
  \<open>2 \<cdot> R \<cdot> atan2 (\<surd>a, \<surd>(1 - a))\<close> with \<open>R\<close> = 6,371,000 metres and
  \<open>a = sin\<^sup>2 (\<Delta>lat / 2) + cos lat1 \<cdot> cos lat2 \<cdot> sin\<^sup>2 (\<Delta>lon / 2)\<close>. The function does
  not: it does not keep \<open>a\<close> within \<open>[0, 1]\<close>, and at the antipodal points \<open>(8, 0)\<close> and
  \<open>(-8, 180)\<close> it returns NaN, where the formula gives half the circumference.
\<close>

theorem haversine_antipodes_nan:
  "haversine64 libm0 (Num 8) (Num 0) (Num (- 8)) (Num 180) = NaN
   \<and> haversine_spec 8 0 (- 8) 180 = pi * R"
  using haversine64_antipodes haversine_spec_antipodes by simp

text \<open>
  Claim C7. The distance is symmetric: for all coordinate pairs \<open>A\<close> and \<open>B\<close>,
  \<open>distance (A, B) == distance (B, A)\<close>. It is not at \<open>A = (8, 0)\<close>, \<open>B = (-8, 180)\<close>:
  the distance from \<open>A\<close> to \<open>B\<close> is NaN, which equals nothing.
\<close>

theorem haversine_antipodes_not_symmetric:
  "strictEquals
     (haversine64 libm0 (Num 8) (Num 0) (Num (- 8)) (Num 180))
     (haversine64 libm0 (Num (- 8)) (Num 180) (Num 8) (Num 0)) = False"
  by (simp add: haversine64_antipodes)

section \<open>Properties of the form\<close>

subsection \<open>Blank fields and the example session\<close>

text \<open>A field is blank after trimming exactly when it holds white space only.\<close>

lemma trim_empty_iff: "trim s = [] \<longleftrightarrow> (\<forall>c \<in> set s. isWhiteSpace c)"
proof -
  have "trim s = [] \<longleftrightarrow> (\<forall>c \<in> set (dropWhile isWhiteSpace s). isWhiteSpace c)"
    by (simp add: trim_def)
  also have "\<dots> \<longleftrightarrow> dropWhile isWhiteSpace s = []"
  proof
    assume "dropWhile isWhiteSpace s = []"
    then show "\<forall>c \<in> set (dropWhile isWhiteSpace s). isWhiteSpace c"
      by (simp only: set_simps ball_empty)
  next
    assume a: "\<forall>c \<in> set (dropWhile isWhiteSpace s). isWhiteSpace c"
    show "dropWhile isWhiteSpace s = []"
    proof (rule ccontr)
      assume n: "dropWhile isWhiteSpace s \<noteq> []"
      then have "\<not> isWhiteSpace (hd (dropWhile isWhiteSpace s))" by (rule hd_dropWhile)
      moreover have "hd (dropWhile isWhiteSpace s) \<in> set (dropWhile isWhiteSpace s)"
        using n by simp
      ultimately show False using a by blast
    qed
  qed
  also have "\<dots> \<longleftrightarrow> (\<forall>c \<in> set s. isWhiteSpace c)"
    by simp
  finally show ?thesis .
qed

lemma trim_examples:
  "trim (js ''Ada'') \<noteq> []"
  "trim (js ''ada@example.org'') \<noteq> []"
  "trim (js ''hello'') \<noteq> []"
  "trim (js ''  '') = []"
  by (simp_all add: trim_def js_def isWhiteSpace_def)

lemma outOfRangeMessage_example:
  "outOfRangeMessage (15027 / 100) = js ''You are 150m from the allowed location.''"
  by (simp add: outOfRangeMessage_def Math_round_def numberToString_def digits.simps js_def)

lemma run_append: "run c (es @ es') st = run c es' (run c es st)"
  by (simp add: run_def)

lemma filledState_eq:
  "filledState =
     \<lparr>form_fields = \<lparr>name = js ''Ada'', email = js ''ada@example.org'', comments = js ''hello''\<rparr>,
      images = [js ''data:image/jpeg;base64,AAAA''],
      location = Some centre0, geoAllowed = True, geoError = [],
      submitting = False, geoLoading = False, positionRequests = 1\<rparr>"
  by (simp add: filledState_def run_def filled_def initial_def getLocation_def onPosition_def
        Let_def haversine_same GEOFENCE_RADIUS_METERS_def handleFieldChange_def
        handleCommentsChange_def capturePhoto_def camera_handleCapture_def env0_def
        handleCapture_def startsWith_def centre0_def js_def)

lemma submittedState_eq: "submittedState = filledState\<lparr>submitting := True\<rparr>"
  unfolding submittedState_def run_append filledState_def [symmetric]
  by (simp add: filledState_eq run_def submitDisabled_def isFormValid_def trim_examples
        handleSubmit_def)

lemma failedState_eq:
  "failedState =
     filledState\<lparr>geoError := permissionMessage, geoAllowed := False, positionRequests := 2\<rparr>"
  unfolding failedState_def run_append filledState_def [symmetric]
  by (simp add: filledState_eq run_def getLocation_def onPositionError_def)

subsection \<open>The submit button\<close>

text \<open>
  Claim C1, as the specification states it, fails: the button is also disabled while a
  submission is in progress, and after a location request that fails, although the three
  fields are non-blank, an image exists and the last computed distance from the current
  coordinate to the centre (here 0) is at most 150 metres.
\<close>

theorem submit_gate_counterexample:
  "trim (name (form_fields submittedState)) \<noteq> []
   \<and> trim (email (form_fields submittedState)) \<noteq> []
   \<and> trim (comments (form_fields submittedState)) \<noteq> []
   \<and> images submittedState \<noteq> []
   \<and> location submittedState = Some centre0
   \<and> haversine (lat centre0) (lon centre0) (lat centre0) (lon centre0) \<le> 150
   \<and> submitDisabled submittedState
   \<and> trim (name (form_fields failedState)) \<noteq> []
   \<and> trim (email (form_fields failedState)) \<noteq> []
   \<and> trim (comments (form_fields failedState)) \<noteq> []
   \<and> images failedState \<noteq> []
   \<and> location failedState = Some centre0
   \<and> submitDisabled failedState"
  by (simp add: submittedState_eq failedState_eq filledState_eq trim_examples haversine_same
        submitDisabled_def)

text \<open>
  Claim C1, amended. The submit button is enabled if and only if the name, email and
  message fields are each non-blank after trimming, the image list is non-empty, the
  geofence-allowed flag is set and no submission is in progress; so whenever one of these
  conditions fails, the gate is false. The flag is false initially, a position result sets
  it to whether the computed distance is at most 150 metres, a failed request clears it,
  and editing a field, capturing, retrying and submitting leave it as it is.
\<close>

theorem submit_gate:
  "(\<not> submitDisabled st) =
     (trim (name (form_fields st)) \<noteq> [] \<and> trim (email (form_fields st)) \<noteq> [] \<and>
      trim (comments (form_fields st)) \<noteq> [] \<and> images st \<noteq> [] \<and>
      geoAllowed st \<and> \<not> submitting st)
   \<and> geoAllowed initial = False
   \<and> geoAllowed (step c st (PositionSuccess p)) =
        (haversine (lat p) (lon p) (lat c) (lon c) \<le> 150)
   \<and> geoAllowed (step c st (PositionFailure err)) = False
   \<and> geoAllowed (step c st (FieldChange key v)) = geoAllowed st
   \<and> geoAllowed (step c st (CommentsChange v)) = geoAllowed st
   \<and> geoAllowed (step c st (Capture env)) = geoAllowed st
   \<and> geoAllowed (step c st RetryLocation) = geoAllowed st
   \<and> geoAllowed (step c st Submit) = geoAllowed st"
proof -
  have 1: "(\<not> submitDisabled st) =
     (trim (name (form_fields st)) \<noteq> [] \<and> trim (email (form_fields st)) \<noteq> [] \<and>
      trim (comments (form_fields st)) \<noteq> [] \<and> images st \<noteq> [] \<and>
      geoAllowed st \<and> \<not> submitting st)"
    by (auto simp: submitDisabled_def isFormValid_def)
  have 2: "geoAllowed initial = False" by (simp add: initial_def)
  have 3: "geoAllowed (step c st (PositionSuccess p)) =
        (haversine (lat p) (lon p) (lat c) (lon c) \<le> 150)"
    by (simp add: onPosition_def Let_def GEOFENCE_RADIUS_METERS_def)
  have 4: "geoAllowed (step c st (PositionFailure err)) = False"
    by (simp add: onPositionError_def)
  have 5: "geoAllowed (step c st (FieldChange key v)) = geoAllowed st"
    by (simp add: handleFieldChange_def)
  have 6: "geoAllowed (step c st (CommentsChange v)) = geoAllowed st"
    by (simp add: handleCommentsChange_def)
  have 7: "geoAllowed (step c st (Capture env)) = geoAllowed st"
    by (simp add: capturePhoto_def handleCapture_def split: prod.splits option.splits)
  have 8: "geoAllowed (step c st RetryLocation) = geoAllowed st"
    by (simp add: getLocation_def)
  have 9: "geoAllowed (step c st Submit) = geoAllowed st"
    by (simp add: handleSubmit_def)
  show ?thesis using 1 2 3 4 5 6 7 8 9 by blast
qed

theorem submit_gate_witness:
  "\<not> submitDisabled filledState \<and> submitDisabled (filledState\<lparr>images := []\<rparr>)"
  using submit_gate [of filledState] submit_gate [of "filledState\<lparr>images := []\<rparr>"]
  by (simp add: filledState_eq trim_examples)

subsection \<open>Location failures and retries\<close>

text \<open>
  Claim C4. Every location request that ends in failure, whatever the reason, sets a
  non-empty error message, which the status line shows, and clears the geofence-allowed
  flag, which disables submission (pressing submit changes nothing); the retry button is
  not guarded, and pressing it issues a new request.
\<close>

theorem position_failure_disables_and_retryable:
  "geoError (step c st (PositionFailure err)) \<noteq> []
   \<and> statusText (step c st (PositionFailure err)) = geoError (step c st (PositionFailure err))
   \<and> geoAllowed (step c st (PositionFailure err)) = False
   \<and> submitDisabled (step c st (PositionFailure err))
   \<and> step c (step c st (PositionFailure err)) Submit = step c st (PositionFailure err)
   \<and> positionRequests (step c (step c st (PositionFailure err)) RetryLocation)
        = Suc (positionRequests (step c st (PositionFailure err)))
   \<and> geoLoading (step c (step c st (PositionFailure err)) RetryLocation)"
  by (simp add: onPositionError_def permissionMessage_def js_def submitDisabled_def
        getLocation_def statusText_def)

theorem position_failure_disables_and_retryable_witness:
  "geoError (step centre0 filledState (PositionFailure PERMISSION_DENIED)) = permissionMessage
   \<and> statusText (step centre0 filledState (PositionFailure PERMISSION_DENIED)) = permissionMessage
   \<and> permissionMessage \<noteq> []
   \<and> submitDisabled (step centre0 filledState (PositionFailure PERMISSION_DENIED))
   \<and> positionRequests
       (step centre0 (step centre0 filledState (PositionFailure PERMISSION_DENIED)) RetryLocation) = 2"
  using position_failure_disables_and_retryable [of centre0 filledState PERMISSION_DENIED]
  by (simp add: filledState_eq onPositionError_def)

lemma messages_nonempty:
  "permissionMessage \<noteq> []" "outOfRangeMessage d \<noteq> []"
  by (simp_all add: permissionMessage_def outOfRangeMessage_def js_def)

lemma run_snoc: "run c (es @ [e]) st = step c (run c es st) e"
  by (simp add: run_def)

lemma geoRun_Cons: "geoRun c (g # tr) st = geoRun c tr (step c st (toEvent g))"
  by (simp add: geoRun_def run_def)

lemma location_geoRun:
  "location (geoRun c tr st) =
     (case lastPositionOf tr of None \<Rightarrow> location st | Some p \<Rightarrow> Some p)"
proof (induction tr arbitrary: st rule: lastPositionOf.induct)
  case 1
  show ?case by (simp add: geoRun_def run_def)
next
  case (2 tr)
  show ?case
    unfolding geoRun_Cons "2.IH"
    by (simp add: getLocation_def split: option.splits)
next
  case (3 k p tr)
  show ?case
    unfolding geoRun_Cons "3.IH"
    by (simp add: onPosition_def Let_def split: option.splits)
next
  case (4 k e tr)
  show ?case
    unfolding geoRun_Cons "4.IH"
    by (simp add: onPositionError_def split: option.splits)
qed

lemma step_answer: "step c st (toEvent (Answer k r)) = complete c r st"
  by (cases r) (simp_all add: complete_def)

text \<open>
  Claim C5, as the specification states it, fails twice. A request that fails does not
  overwrite the coordinate: after a request that succeeds and one that fails, the most
  recent request's result is the failure, from which alone no coordinate derives, yet
  the coordinate is still that of the first request. And the page does not tell a stale
  answer from a fresh one: when the second of two requests is answered first, within
  range, and the first then fails, the most recent request's result is the position,
  from which the flag derives as true and the message as empty, yet the final state is
  that of the failure.
\<close>

theorem latest_request_counterexample:
  "latestRequestResult sequentialTrace = Some (PositionFailed PERMISSION_DENIED)
   \<and> location (geoRun centre0 failureTrace initial) = None
   \<and> location (geoRun centre0 sequentialTrace initial) = Some centre0
   \<and> latestRequestResult overlapTrace = Some (Position centre0)
   \<and> geoAllowed (complete centre0 (Position centre0) initial) = True
   \<and> geoError (complete centre0 (Position centre0) initial) = []
   \<and> geoAllowed (geoRun centre0 overlapTrace initial) = False
   \<and> geoError (geoRun centre0 overlapTrace initial) = permissionMessage"
  by (simp add: latestRequestResult_def sequentialTrace_def overlapTrace_def failureTrace_def
        geoRun_def run_def complete_def onPosition_def onPositionError_def getLocation_def
        initial_def Let_def haversine_same GEOFENCE_RADIUS_METERS_def centre0_def)

text \<open>
  Claim C5, amended. In every trace of the page, with location requests and answers in
  any interleaving and any other events in between, the geofence-allowed flag, the
  geofence error message and the status line after an answer arrives are those derived
  from that answer alone, whichever request it belongs to and whatever the state before:
  the answer that arrived last decides. A position sets the flag to whether its distance
  is at most 150 metres and leaves a message exactly when it is not; a failure clears
  the flag and sets the permission message. The coordinate is overwritten by every
  position that arrives and kept by a failure: after a trace of requests and answers it
  is the position of the last successful answer to arrive, or the coordinate before the
  trace when none succeeded.
\<close>

theorem last_answer_wins:
  "geoAllowed (run c (es @ [toEvent (Answer k r)]) st) = geoAllowed (complete c r initial)
   \<and> geoError (run c (es @ [toEvent (Answer k r)]) st) = geoError (complete c r initial)
   \<and> statusText (run c (es @ [toEvent (Answer k r)]) st) = statusText (complete c r initial)
   \<and> geoAllowed (complete c (Position p) initial) =
        (haversine (lat p) (lon p) (lat c) (lon c) \<le> 150)
   \<and> (geoError (complete c (Position p) initial) = []) =
        (haversine (lat p) (lon p) (lat c) (lon c) \<le> 150)
   \<and> geoAllowed (complete c (PositionFailed err) initial) = False
   \<and> geoError (complete c (PositionFailed err) initial) = permissionMessage
   \<and> location (run c (es @ [toEvent (Answer k r)]) st) =
        (case r of Position q \<Rightarrow> Some q | PositionFailed e \<Rightarrow> location (run c es st))
   \<and> location (geoRun c tr st) =
        (case lastPositionOf tr of None \<Rightarrow> location st | Some q \<Rightarrow> Some q)"
proof -
  have 1: "geoAllowed (run c (es @ [toEvent (Answer k r)]) st) =
             geoAllowed (complete c r initial)"
    unfolding run_snoc step_answer
    by (simp add: complete_def onPosition_def onPositionError_def Let_def
          split: position_result.splits)
  have 2: "geoError (run c (es @ [toEvent (Answer k r)]) st) =
             geoError (complete c r initial)"
    unfolding run_snoc step_answer
    by (simp add: complete_def onPosition_def onPositionError_def Let_def
          split: position_result.splits)
  have 3: "statusText (run c (es @ [toEvent (Answer k r)]) st) =
             statusText (complete c r initial)"
    unfolding run_snoc step_answer
    by (simp add: complete_def onPosition_def onPositionError_def Let_def statusText_def
          split: position_result.splits)
  have 4: "geoAllowed (complete c (Position p) initial) =
             (haversine (lat p) (lon p) (lat c) (lon c) \<le> 150)"
    by (simp add: complete_def onPosition_def Let_def GEOFENCE_RADIUS_METERS_def)
  have 5: "(geoError (complete c (Position p) initial) = []) =
             (haversine (lat p) (lon p) (lat c) (lon c) \<le> 150)"
    by (simp add: complete_def onPosition_def Let_def GEOFENCE_RADIUS_METERS_def
          messages_nonempty)
  have 6: "geoAllowed (complete c (PositionFailed err) initial) = False"
    by (simp add: complete_def onPositionError_def)
  have 7: "geoError (complete c (PositionFailed err) initial) = permissionMessage"
    by (simp add: complete_def onPositionError_def)
  have 8: "location (run c (es @ [toEvent (Answer k r)]) st) =
        (case r of Position q \<Rightarrow> Some q | PositionFailed e \<Rightarrow> location (run c es st))"
    unfolding run_snoc step_answer
    by (simp add: complete_def onPosition_def onPositionError_def Let_def
          split: position_result.splits)
  show ?thesis using 1 2 3 4 5 6 7 8 location_geoRun by blast
qed

text \<open>
  Claim C9. A failed location request leaves the stored coordinate as it is: only the
  geofence-allowed flag, the error message and the loading flag change. A coordinate
  obtained earlier is still there after a later failure, the capture button stays
  enabled, and a capture draws and appends what it would have before the failure.
\<close>

theorem position_failure_keeps_coordinate:
  "location (onPositionError err st) = location st
   \<and> form_fields (onPositionError err st) = form_fields st
   \<and> images (onPositionError err st) = images st
   \<and> submitting (onPositionError err st) = submitting st
   \<and> positionRequests (onPositionError err st) = positionRequests st
   \<and> location (onPositionError err (onPosition c p st)) = Some p
   \<and> captureDisabled (location (onPositionError err (onPosition c p st))) = False
   \<and> fst (capturePhoto env (onPositionError err st)) = fst (capturePhoto env st)
   \<and> images (snd (capturePhoto env (onPositionError err st))) =
       images (snd (capturePhoto env st))"
  by (simp add: onPositionError_def onPosition_def Let_def captureDisabled_def
        capturePhoto_def handleCapture_def split: prod.splits option.splits)

subsection \<open>Capturing\<close>

text \<open>
  Claim C6. In every state with no current coordinate, capture is disabled: the button
  is disabled, and invoking the handler all the same draws nothing, passes nothing to
  the form and leaves the state, with its image list, as it is.
\<close>

theorem capture_requires_location:
  "location st = None \<Longrightarrow>
     captureDisabled (location st) \<and>
     camera_handleCapture env (location st) = ([], None) \<and>
     capturePhoto env st = ([], st)"
  by (simp add: captureDisabled_def camera_handleCapture_def capturePhoto_def
        split: option.splits)

theorem capture_requires_location_witness:
  "location initial = None \<and> captureDisabled (location initial) \<and>
   camera_handleCapture env0 (location initial) = ([], None) \<and>
   capturePhoto env0 initial = ([], initial)"
proof -
  have h: "location initial = None" by (simp add: initial_def)
  show ?thesis using h capture_requires_location [OF h, of env0] by simp
qed

lemma images_handleCapture:
  "images (handleCapture img st) =
     (if img \<noteq> [] \<and> startsWith img (js ''data:image'') then images st @ [img]
      else images st)"
  by (simp add: handleCapture_def)

lemma images_step_cases:
  "images (step c st e) = images st \<or>
   (\<exists>img. startsWith img (js ''data:image'') \<and> images (step c st e) = images st @ [img]) \<or>
   images (step c st e) = []"
proof (cases e)
  case (Capture env)
  then show ?thesis
    by (auto simp: capturePhoto_def handleCapture_def split: prod.splits option.splits)
qed (auto simp: handleFieldChange_def handleCommentsChange_def getLocation_def onPosition_def
       Let_def onPositionError_def handleSubmit_def mounted_def initial_def)

lemma images_run_ok:
  "list_all (\<lambda>img. startsWith img (js ''data:image'')) (images st) \<Longrightarrow>
   list_all (\<lambda>img. startsWith img (js ''data:image'')) (images (run c es st))"
proof (induction es arbitrary: st)
  case Nil
  then show ?case by (simp add: run_def)
next
  case (Cons e es)
  have "list_all (\<lambda>img. startsWith img (js ''data:image'')) (images (step c st e))"
    using images_step_cases [of c st e] Cons.prems by auto
  then have "list_all (\<lambda>img. startsWith img (js ''data:image''))
               (images (run c es (step c st e)))"
    by (rule Cons.IH)
  then show ?case by (simp add: run_def)
qed

text \<open>
  Claim C10. The image list is append-only and filtered. A capture callback appends its
  string only if the string is non-empty and starts with \<open>data:image\<close>, and otherwise
  changes nothing; a capture never removes or reorders the entries that exist; and in
  every state the page reaches from its initial state, every element of the list starts
  with \<open>data:image\<close>.
\<close>

theorem images_append_only_filtered:
  "images (handleCapture img st) =
     (if img \<noteq> [] \<and> startsWith img (js ''data:image'') then images st @ [img]
      else images st)
   \<and> take (length (images st)) (images (handleCapture img st)) = images st
   \<and> take (length (images st)) (images (step c st (Capture env))) = images st
   \<and> length (images (step c st (Capture env))) \<le> Suc (length (images st))
   \<and> (\<forall>i \<in> set (images (run c es initial)). startsWith i (js ''data:image''))"
proof -
  have a: "images (handleCapture img st) =
     (if img \<noteq> [] \<and> startsWith img (js ''data:image'') then images st @ [img]
      else images st)"
    by (rule images_handleCapture)
  have b: "take (length (images st)) (images (handleCapture img st)) = images st"
    by (simp add: images_handleCapture)
  have c: "take (length (images st)) (images (step c st (Capture env))) = images st"
    by (simp add: capturePhoto_def images_handleCapture split: prod.splits option.splits)
  have d: "length (images (step c st (Capture env))) \<le> Suc (length (images st))"
    by (simp add: capturePhoto_def images_handleCapture split: prod.splits option.splits)
  have "list_all (\<lambda>img. startsWith img (js ''data:image'')) (images (run c es initial))"
    by (rule images_run_ok) (simp add: initial_def)
  then have e: "\<forall>i \<in> set (images (run c es initial)). startsWith i (js ''data:image'')"
    by (simp add: list_all_iff)
  show ?thesis using a b c d e by blast
qed

theorem images_append_only_filtered_witness:
  "images (run centre0 filled initial) = [js ''data:image/jpeg;base64,AAAA'']
   \<and> startsWith (js ''data:image/jpeg;base64,AAAA'') (js ''data:image'')
   \<and> images (handleCapture (js ''file:photo.jpg'') filledState) = images filledState"
  using images_append_only_filtered [of "js ''file:photo.jpg''" filledState centre0 env0 filled]
  by (simp add: filledState_eq filledState_def [symmetric] startsWith_def js_def)

end
